theory Spec2Isabelle
  imports Main
begin

section \<open>Strings\<close>

text \<open>
  A JavaScript string is modelled as a list of code units. An Isabelle \<^typ>\<open>char\<close> has
  eight bits, so the model covers strings whose code units are below 256; \<open>length\<close> is
  the \<open>.length\<close> of the source. The emoji that open some status messages are written as
  the bytes that reach the terminal.
\<close>

definition isSpace :: "char \<Rightarrow> bool" where
  \<comment> \<open>the code units below 256 matched by \<open>\s\<close> and removed by \<open>trim()\<close>\<close>
  "isSpace c = (c \<in> {CHR 0x09, CHR 0x0A, CHR 0x0B, CHR 0x0C, CHR 0x0D, CHR 0x20, CHR 0xA0})"

definition isLineTerminator :: "char \<Rightarrow> bool" where
  \<comment> \<open>the code units below 256 that \<open>.\<close> of a regular expression does not match\<close>
  "isLineTerminator c = (c = CHR 0x0A \<or> c = CHR 0x0D)"

definition trim :: "string \<Rightarrow> string" where
  "trim s = rev (dropWhile isSpace (rev (dropWhile isSpace s)))"

definition truthy :: "string \<Rightarrow> bool" where
  \<comment> \<open>a string in a condition: the empty string is falsy\<close>
  "truthy s = (s \<noteq> [])"

definition endsWith :: "string \<Rightarrow> string \<Rightarrow> bool" where
  "endsWith s suf = (length suf \<le> length s \<and> drop (length s - length suf) s = suf)"

definition startsWith :: "string \<Rightarrow> string \<Rightarrow> bool" where
  "startsWith s pre = (take (length pre) s = pre)"

fun splitLines :: "string \<Rightarrow> string list" where
  \<comment> \<open>\<open>s.split("\n")\<close>: never the empty list\<close>
  "splitLines [] = [[]]"
| "splitLines (c # cs) =
     (if c = CHR 0x0A then [] # splitLines cs
      else (case splitLines cs of [] \<Rightarrow> [[c]] | l # ls \<Rightarrow> (c # l) # ls))"

definition firstLine :: "string \<Rightarrow> string" where
  \<comment> \<open>\<open>s.split("\n")[0]\<close>\<close>
  "firstLine s = (case splitLines s of [] \<Rightarrow> [] | l # ls \<Rightarrow> l)"

definition firstColumn :: "string \<Rightarrow> string" where
  \<comment> \<open>\<open>line.split(/\s+/)[0]\<close>: the text before the first white space (empty when the line
      starts with white space)\<close>
  "firstColumn line = takeWhile (\<lambda>c. \<not> isSpace c) line"

definition lastSegment :: "string \<Rightarrow> string" where
  \<comment> \<open>\<open>s.split("/").pop()\<close>\<close>
  "lastSegment s = rev (takeWhile (\<lambda>c. c \<noteq> CHR ''/'') (rev s))"

definition stripMarker :: "string \<Rightarrow> string" where
  \<comment> \<open>\<open>s.replace(/^\*?\s*/, "")\<close>: one leading star, then leading white space\<close>
  "stripMarker s =
     dropWhile isSpace (case s of [] \<Rightarrow> [] | c # cs \<Rightarrow> if c = CHR ''*'' then cs else c # cs)"

definition stripSlashGit :: "string \<Rightarrow> string" where
  \<comment> \<open>\<open>s.replace(/\/\.git$/, "")\<close>\<close>
  "stripSlashGit s = (if endsWith s ''/.git'' then take (length s - 5) s else s)"

fun matchOriginRef :: "string \<Rightarrow> string option" where
  \<comment> \<open>group 1 of \<open>s.match(/refs\/remotes\/origin\/(.+)/)\<close>: the leftmost place where the
      prefix is followed by a character other than a line terminator, and from there up
      to the next line terminator\<close>
  "matchOriginRef [] = None"
| "matchOriginRef (c # cs) =
     (let rest = drop 20 (c # cs) in
      if startsWith (c # cs) ''refs/remotes/origin/'' \<and> rest \<noteq> [] \<and> \<not> isLineTerminator (hd rest)
      then Some (takeWhile (\<lambda>d. \<not> isLineTerminator d) rest)
      else matchOriginRef cs)"

definition toLowerChar :: "char \<Rightarrow> char" where
  "toLowerChar c =
     (let n = (of_char c :: nat) in
      if (65 \<le> n \<and> n \<le> 90) \<or> (192 \<le> n \<and> n \<le> 222 \<and> n \<noteq> 215) then char_of (n + 32) else c)"

definition toLowerCase :: "string \<Rightarrow> string" where
  "toLowerCase s = map toLowerChar s"

section \<open>Errors, backend commands and output\<close>

datatype query =
    RevParseGitDir                      \<comment> \<open>\<open>git rev-parse --git-dir\<close>\<close>
  | SymbolicRefOriginHead               \<comment> \<open>\<open>git symbolic-ref refs/remotes/origin/HEAD 2>/dev/null || echo ""\<close>\<close>
  | ShowRefHeads string                 \<comment> \<open>\<open>git show-ref --verify --quiet refs/heads/b\<close>\<close>
  | ShowRefRemotes string               \<comment> \<open>\<open>git show-ref --verify --quiet refs/remotes/origin/b\<close>\<close>
  | BranchList                          \<comment> \<open>\<open>git branch --list\<close>\<close>
  | WorktreeList                        \<comment> \<open>\<open>git worktree list\<close>\<close>
  | BranchShowCurrent "string option"   \<comment> \<open>\<open>git [-C path] branch --show-current\<close>\<close>

datatype action =
    WorktreeAdd string string                  \<comment> \<open>\<open>git worktree add path branch\<close>\<close>
  | WorktreeAddNewBranch string string string  \<comment> \<open>\<open>git worktree add path main -b branch\<close>\<close>
  | Checkout string                            \<comment> \<open>\<open>git checkout branch\<close>\<close>
  | CheckoutDetach string                      \<comment> \<open>\<open>git checkout --detach branch\<close>\<close>
  | WorktreeRemoveForce string                 \<comment> \<open>\<open>git worktree remove path --force\<close>\<close>
  | Chdir string                               \<comment> \<open>\<open>process.chdir(path)\<close>: moves the process\<close>

datatype exn =
    Error string           \<comment> \<open>\<open>new Error(message)\<close>\<close>
  | QueryFailed query      \<comment> \<open>a read-only command exited non-zero\<close>
  | ActionFailed action    \<comment> \<open>a mutating command exited non-zero\<close>
  | TypeError              \<comment> \<open>\<open>reduce\<close> of an empty array with no initial value\<close>

section \<open>Path Resolver\<close>

definition reduceShortest :: "string list \<Rightarrow> exn + string" where
  \<comment> \<open>\<open>paths.reduce((shortest, current) => current.length < shortest.length ? current : shortest)\<close>\<close>
  "reduceShortest worktreePaths =
     (case worktreePaths of
        [] \<Rightarrow> Inl TypeError
      | p # ps \<Rightarrow>
          Inr (foldl (\<lambda>shortest current.
                       if length current < length shortest then current else shortest) p ps))"

definition determineWorktreeBase :: "string list \<Rightarrow> exn + string" where
  "determineWorktreeBase worktreePaths =
     (case find (\<lambda>path. endsWith path ''.git'') worktreePaths of
        Some bareGitPath \<Rightarrow>
          if truthy bareGitPath then Inr (stripSlashGit bareGitPath)
          else reduceShortest worktreePaths
      | None \<Rightarrow> reduceShortest worktreePaths)"

section \<open>The backend, the process state and the control operators\<close>

text \<open>
  The versioning backend and the process environment are a parameter of the model: a
  state of any type \<open>'s\<close>, read by the read-only commands (standard output, or \<open>None\<close>
  when the command exits non-zero and \<open>zx\<close> throws) and changed by the mutating ones
  (whether the command succeeded, and the next state). A read-only command leaves the
  state as it is, so the same command run twice with no mutating command in between gives
  the same answer; \<open>process.cwd()\<close> always answers. Where the shell library runs a
  command is part of the state and up to the backend: \<open>process.chdir\<close> is one of the
  mutating commands, and nothing is assumed about what it moves. The output of a run is
  what the script itself prints; the echo of the commands by the shell library is left
  out.
\<close>

record 's sys =
  run_query :: "'s \<Rightarrow> query \<Rightarrow> string option"
  run_action :: "'s \<Rightarrow> action \<Rightarrow> bool \<times> 's"
  cwd :: "'s \<Rightarrow> string"                             \<comment> \<open>\<open>process.cwd()\<close>\<close>

datatype event =
    Log string          \<comment> \<open>\<open>console.log(s)\<close>\<close>
  | LogError exn        \<comment> \<open>\<open>console.error(error.message)\<close>\<close>
  | Prompt string       \<comment> \<open>the text of an interactive question\<close>
  | Unexpected exn      \<comment> \<open>\<open>console.error("Unexpected error:", error)\<close>\<close>

record 's pstate =
  world :: 's
  out :: "event list"       \<comment> \<open>what the process has printed, oldest first\<close>
  acts :: "action list"     \<comment> \<open>the mutating commands it has issued, oldest first\<close>

datatype 'a res =
    Ok 'a
  | Throw exn      \<comment> \<open>an exception on its way to the nearest \<open>catch\<close>\<close>
  | Exit nat       \<comment> \<open>\<open>process.exit(code)\<close>: no \<open>catch\<close> stops it\<close>

type_synonym ('s, 'a) prog = "'s pstate \<Rightarrow> 'a res \<times> 's pstate"

definition ret :: "'a \<Rightarrow> ('s, 'a) prog" where
  "ret a = (\<lambda>st. (Ok a, st))"

definition throw :: "exn \<Rightarrow> ('s, 'a) prog" where
  "throw e = (\<lambda>st. (Throw e, st))"

definition processExit :: "nat \<Rightarrow> ('s, 'a) prog" where
  "processExit n = (\<lambda>st. (Exit n, st))"

definition andThen :: "('s, 'a) prog \<Rightarrow> ('a \<Rightarrow> ('s, 'b) prog) \<Rightarrow> ('s, 'b) prog" where
  "andThen m f =
     (\<lambda>st. case m st of
             (Ok a, st') \<Rightarrow> f a st'
           | (Throw e, st') \<Rightarrow> (Throw e, st')
           | (Exit n, st') \<Rightarrow> (Exit n, st'))"

definition tryCatch :: "('s, 'a) prog \<Rightarrow> (exn \<Rightarrow> ('s, 'a) prog) \<Rightarrow> ('s, 'a) prog" where
  "tryCatch m h =
     (\<lambda>st. case m st of
             (Ok a, st') \<Rightarrow> (Ok a, st')
           | (Throw e, st') \<Rightarrow> h e st'
           | (Exit n, st') \<Rightarrow> (Exit n, st'))"

definition liftE :: "exn + 'a \<Rightarrow> ('s, 'a) prog" where
  "liftE r = (case r of Inl e \<Rightarrow> throw e | Inr a \<Rightarrow> ret a)"

definition emit :: "event \<Rightarrow> ('s, unit) prog" where
  "emit ev = (\<lambda>st. (Ok (), st\<lparr>out := out st @ [ev]\<rparr>))"

definition consoleLog :: "string \<Rightarrow> ('s, unit) prog" where
  "consoleLog s = emit (Log s)"

definition consoleError :: "exn \<Rightarrow> ('s, unit) prog" where
  "consoleError e = emit (LogError e)"

definition git :: "'s sys \<Rightarrow> query \<Rightarrow> ('s, string) prog" where
  "git sys q =
     (\<lambda>st. case run_query sys (world st) q of
             Some stdout \<Rightarrow> (Ok stdout, st)
           | None \<Rightarrow> (Throw (QueryFailed q), st))"

definition perform :: "'s sys \<Rightarrow> action \<Rightarrow> ('s, unit) prog" where
  "perform sys a =
     (\<lambda>st. case run_action sys (world st) a of
             (ok, w') \<Rightarrow>
               (if ok then Ok () else Throw (ActionFailed a),
                st\<lparr>world := w', acts := acts st @ [a]\<rparr>))"

definition question :: "string option \<Rightarrow> string \<Rightarrow> ('s, string) prog" where
  \<comment> \<open>the user's answer is an input of the run, \<open>None\<close> when the prompt is interrupted. The
      promise of the library's \<open>question\<close> never rejects: at an interrupted prompt it
      stays pending, nothing more of the script runs, and the process ends with code 0\<close>
  "question answer text =
     andThen (emit (Prompt text))
       (\<lambda>_. case answer of Some a \<Rightarrow> ret a | None \<Rightarrow> processExit 0)"

definition initial :: "'s \<Rightarrow> 's pstate" where
  "initial w = \<lparr>world = w, out = [], acts = []\<rparr>"

definition runScript :: "('s, unit) prog \<Rightarrow> 's \<Rightarrow> nat \<times> 's pstate" where
  \<comment> \<open>\<open>main().catch((error) => { console.error("Unexpected error:", error); process.exit(1) })\<close>;
      a script that returns ends with exit code 0\<close>
  "runScript main w =
     (case main (initial w) of
        (Ok _, st') \<Rightarrow> (0, st')
      | (Throw e, st') \<Rightarrow> (1, st'\<lparr>out := out st' @ [Unexpected e]\<rparr>)
      | (Exit n, st') \<Rightarrow> (n, st'))"

section \<open>Repository Probe and Gateway\<close>

definition validateGitRepository :: "'s sys \<Rightarrow> ('s, unit) prog" where
  "validateGitRepository sys =
     tryCatch (andThen (git sys RevParseGitDir) (\<lambda>_. ret ()))
       (\<lambda>_. throw (Error ''Not in a git repository''))"

definition parseWorktreeList :: "string \<Rightarrow> string list" where
  "parseWorktreeList stdout =
     filter (\<lambda>path. length path > 0) (map firstColumn (splitLines (trim stdout)))"

definition getWorktreePaths :: "'s sys \<Rightarrow> ('s, string list) prog" where
  "getWorktreePaths sys =
     andThen (git sys WorktreeList) (\<lambda>stdout. ret (parseWorktreeList stdout))"

definition branchExistsLocally :: "'s sys \<Rightarrow> string \<Rightarrow> ('s, bool) prog" where
  "branchExistsLocally sys branchName =
     tryCatch (andThen (git sys (ShowRefHeads branchName)) (\<lambda>_. ret True))
       (\<lambda>_. ret False)"

definition getCurrentDirectory :: "'s sys \<Rightarrow> ('s, string) prog" where
  "getCurrentDirectory sys = (\<lambda>st. (Ok (cwd sys (world st)), st))"

definition getCurrentBranch :: "'s sys \<Rightarrow> string option \<Rightarrow> ('s, string) prog" where
  \<comment> \<open>\<open>path ? git -C path ... : git ...\<close>: an empty path counts as no path\<close>
  "getCurrentBranch sys path =
     andThen
       (git sys (BranchShowCurrent
                  (case path of None \<Rightarrow> None | Some p \<Rightarrow> if truthy p then Some p else None)))
       (\<lambda>stdout. ret (trim stdout))"

definition isCurrentDirectoryWorktree :: "'s sys \<Rightarrow> ('s, bool) prog" where
  "isCurrentDirectoryWorktree sys =
     tryCatch
       (andThen (getCurrentDirectory sys) (\<lambda>currentDir.
        andThen (getWorktreePaths sys) (\<lambda>worktreePaths.
        andThen (liftE (determineWorktreeBase worktreePaths)) (\<lambda>worktreeBase.
        ret (currentDir \<noteq> worktreeBase \<and> currentDir \<in> set worktreePaths)))))
       (\<lambda>_. ret False)"

definition switchToDirectory :: "string \<Rightarrow> string option \<Rightarrow> ('s, unit) prog" where
  "switchToDirectory targetPath message =
     andThen (case message of
                None \<Rightarrow> ret ()
              | Some m \<Rightarrow> if truthy m then consoleLog m else ret ())
       (\<lambda>_. consoleLog (''WORKTREE_PATH:'' @ targetPath))"

section \<open>Main-Branch Resolver\<close>

definition commonMainBranches :: "string list" where
  "commonMainBranches = [''main'', ''develop'', ''dev'', ''master'']"

definition remoteDefaultStep :: "'s sys \<Rightarrow> ('s, string option) prog" where
  \<comment> \<open>the first \<open>try\<close> block: \<open>Some\<close> is its \<open>return\<close>, \<open>None\<close> falls through\<close>
  "remoteDefaultStep sys =
     tryCatch
       (andThen (git sys SymbolicRefOriginHead) (\<lambda>stdout.
          let remoteHead = trim stdout in
          if truthy remoteHead then
            (case matchOriginRef remoteHead of
               Some defaultBranch \<Rightarrow>
                 andThen (consoleLog (''Using default branch: '' @ defaultBranch))
                   (\<lambda>_. ret (Some defaultBranch))
             | None \<Rightarrow> ret None)
          else ret None))
       (\<lambda>_. ret None)"

fun commonBranchLoop :: "'s sys \<Rightarrow> string list \<Rightarrow> ('s, string option) prog" where
  \<comment> \<open>the \<open>for\<close> loop over the common names: \<open>Some\<close> is its \<open>return\<close>\<close>
  "commonBranchLoop sys [] = ret None"
| "commonBranchLoop sys (branchName # rest) =
     andThen
       (tryCatch
          (andThen (git sys (ShowRefHeads branchName)) (\<lambda>_.
           andThen (consoleLog (''Using main branch: '' @ branchName)) (\<lambda>_.
           ret (Some branchName))))
          (\<lambda>_. tryCatch
                 (andThen (git sys (ShowRefRemotes branchName)) (\<lambda>_.
                  andThen (consoleLog (''Using main branch: '' @ branchName @ '' (from remote)''))
                    (\<lambda>_. ret (Some branchName))))
                 (\<lambda>_. ret None)))
       (\<lambda>found. case found of
                  Some b \<Rightarrow> ret (Some b)
                | None \<Rightarrow> commonBranchLoop sys rest)"

definition firstBranchStep :: "'s sys \<Rightarrow> ('s, string option) prog" where
  \<comment> \<open>the last \<open>try\<close> block, on \<open>git branch --list\<close>\<close>
  "firstBranchStep sys =
     tryCatch
       (andThen (git sys BranchList) (\<lambda>stdout.
          let firstBranch = stripMarker (firstLine (trim stdout)) in
          if truthy firstBranch then
            andThen (consoleLog (''Using fallback branch: '' @ firstBranch))
              (\<lambda>_. ret (Some firstBranch))
          else ret None))
       (\<lambda>_. ret None)"

definition discoverMainBranch :: "'s sys \<Rightarrow> ('s, string) prog" where
  "discoverMainBranch sys =
     andThen (remoteDefaultStep sys) (\<lambda>r1.
       case r1 of
         Some b \<Rightarrow> ret b
       | None \<Rightarrow>
           andThen (commonBranchLoop sys commonMainBranches) (\<lambda>r2.
             case r2 of
               Some b \<Rightarrow> ret b
             | None \<Rightarrow>
                 andThen (firstBranchStep sys) (\<lambda>r3.
                   case r3 of
                     Some b \<Rightarrow> ret b
                   | None \<Rightarrow>
                       andThen (consoleLog ''Using default fallback: main'')
                         (\<lambda>_. ret ''main''))))"

section \<open>Worktree Lifecycle Controller: add\<close>

definition switchToExistingWorktree :: "'s sys \<Rightarrow> string \<Rightarrow> ('s, unit) prog" where
  "switchToExistingWorktree sys targetPath =
     andThen (consoleLog (''Switched to existing worktree: '' @ targetPath)) (\<lambda>_.
     andThen (getCurrentBranch sys (Some targetPath)) (\<lambda>currentBranch.
     andThen (consoleLog (''On branch: '' @ currentBranch)) (\<lambda>_.
     switchToDirectory targetPath None)))"

definition createWorktreeWithExistingBranch :: "'s sys \<Rightarrow> string \<Rightarrow> string \<Rightarrow> ('s, unit) prog" where
  "createWorktreeWithExistingBranch sys targetPath branchName =
     andThen (perform sys (WorktreeAdd targetPath branchName)) (\<lambda>_.
     andThen (consoleLog (''Created worktree with existing branch: '' @ targetPath)) (\<lambda>_.
     andThen (getCurrentBranch sys (Some targetPath)) (\<lambda>currentBranch.
     andThen (consoleLog (''On branch: '' @ currentBranch)) (\<lambda>_.
     switchToDirectory targetPath None))))"

definition createWorktreeWithNewBranch ::
  "'s sys \<Rightarrow> string \<Rightarrow> string \<Rightarrow> string \<Rightarrow> ('s, unit) prog" where
  "createWorktreeWithNewBranch sys targetPath branchName mainBranch =
     andThen (perform sys (WorktreeAddNewBranch targetPath mainBranch branchName)) (\<lambda>_.
     andThen (consoleLog (''Created and switched to new worktree: '' @ targetPath)) (\<lambda>_.
     andThen (consoleLog (''Created new branch '' @ [CHR 0x27] @ branchName @ [CHR 0x27]
                            @ '' from '' @ [CHR 0x27] @ mainBranch @ [CHR 0x27])) (\<lambda>_.
     andThen (getCurrentBranch sys (Some targetPath)) (\<lambda>currentBranch.
     andThen (consoleLog (''On branch: '' @ currentBranch)) (\<lambda>_.
     switchToDirectory targetPath None)))))"

definition addBody :: "'s sys \<Rightarrow> string \<Rightarrow> ('s, unit) prog" where
  \<comment> \<open>the \<open>try\<close> block of \<open>main\<close> in the add script\<close>
  "addBody sys branchName =
     andThen (validateGitRepository sys) (\<lambda>_.
     andThen (discoverMainBranch sys) (\<lambda>mainBranch.
     andThen (getWorktreePaths sys) (\<lambda>worktreePaths.
     andThen (liftE (determineWorktreeBase worktreePaths)) (\<lambda>worktreeBase.
       let targetPath = worktreeBase @ ''/'' @ branchName;
           existingWorktree = find (\<lambda>path. path = targetPath) worktreePaths
       in
       if (case existingWorktree of None \<Rightarrow> False | Some e \<Rightarrow> truthy e) then
         switchToExistingWorktree sys targetPath
       else
         andThen (branchExistsLocally sys branchName) (\<lambda>branchExists.
           if branchExists then createWorktreeWithExistingBranch sys targetPath branchName
           else createWorktreeWithNewBranch sys targetPath branchName mainBranch)))))"

definition main_add :: "'s sys \<Rightarrow> string list \<Rightarrow> ('s, unit) prog" where
  "main_add sys args =
     (case args of
        [] \<Rightarrow> andThen (consoleLog ''Usage: gwtadd <branch-name>'') (\<lambda>_. processExit 1)
      | branchName # _ \<Rightarrow>
          tryCatch (addBody sys branchName)
            (\<lambda>error.
               andThen (consoleLog ''Error managing worktree:'') (\<lambda>_.
               andThen (consoleError error) (\<lambda>_.
               processExit 1))))"

section \<open>Worktree Lifecycle Controller: remove\<close>

definition crossMark :: string where
  "crossMark = [CHR 0xE2, CHR 0x9D, CHR 0x8C]"

definition roundPushpin :: string where
  "roundPushpin = [CHR 0xF0, CHR 0x9F, CHR 0x93, CHR 0x8D]"

definition herb :: string where
  "herb = [CHR 0xF0, CHR 0x9F, CHR 0x8C, CHR 0xBF]"

definition fileFolder :: string where
  "fileFolder = [CHR 0xF0, CHR 0x9F, CHR 0x93, CHR 0x81]"

definition warningSign :: string where
  "warningSign = [CHR 0xE2, CHR 0x9A, CHR 0xA0, CHR 0xEF, CHR 0xB8, CHR 0x8F]"

definition openFolder :: string where
  "openFolder = [CHR 0xF0, CHR 0x9F, CHR 0x93, CHR 0x82]"

definition wastebasket :: string where
  "wastebasket = [CHR 0xF0, CHR 0x9F, CHR 0x97, CHR 0x91, CHR 0xEF, CHR 0xB8, CHR 0x8F]"

definition checkMark :: string where
  "checkMark = [CHR 0xE2, CHR 0x9C, CHR 0x85]"

definition lightBulb :: string where
  "lightBulb = [CHR 0xF0, CHR 0x9F, CHR 0x92, CHR 0xA1]"

definition notInWorktreeMessage :: string where
  "notInWorktreeMessage =
     crossMark @ '' Error: Not in a git worktree. Use this command from within a worktree directory.''"

definition cancelledMessage :: string where
  "cancelledMessage = crossMark @ '' Operation cancelled.''"

definition confirmationMessage :: string where
  "confirmationMessage = warningSign @ ''  Are you sure you want to remove this worktree?''"

definition askForConfirmation :: "string option \<Rightarrow> string \<Rightarrow> ('s, bool) prog" where
  "askForConfirmation answer message =
     tryCatch
       (andThen (question answer (message @ '' (y/N): '')) (\<lambda>a.
        ret (toLowerCase a = ''y'' \<or> toLowerCase a = ''yes'')))
       (\<lambda>_. ret False)"

definition showMainRepoBranch :: "'s sys \<Rightarrow> string \<Rightarrow> string \<Rightarrow> ('s, unit) prog" where
  \<comment> \<open>the last \<open>try\<close> block of the remove script\<close>
  "showMainRepoBranch sys worktreeBase mainBranch =
     tryCatch
       (andThen (getCurrentBranch sys (Some worktreeBase)) (\<lambda>mainRepoCurrentBranch.
        andThen (consoleLog (herb @ '' On branch: '' @ mainRepoCurrentBranch)) (\<lambda>_.
        if mainRepoCurrentBranch \<noteq> mainBranch then
          consoleLog (lightBulb @ '' Tip: You might want to switch to the main branch (''
                      @ mainBranch @ '')'')
        else ret ())))
       (\<lambda>_. consoleLog (herb @ '' Switched to main repository''))"

definition removeConfirmed :: "'s sys \<Rightarrow> bool \<Rightarrow> string \<Rightarrow> ('s, unit) prog" where
  \<comment> \<open>the \<open>try\<close> block of \<open>main\<close> in the remove script, from the point where the removal is
      confirmed\<close>
  "removeConfirmed sys forceRemove currentDir =
     andThen (getWorktreePaths sys) (\<lambda>worktreePaths.
     andThen (liftE (determineWorktreeBase worktreePaths)) (\<lambda>worktreeBase.
     andThen (discoverMainBranch sys) (\<lambda>mainBranch.
     andThen (perform sys (Chdir worktreeBase)) (\<lambda>_.
     andThen (consoleLog (openFolder @ '' Changed to main repository: '' @ worktreeBase)) (\<lambda>_.
     andThen (consoleLog (herb @ '' Switching to main branch: '' @ mainBranch)) (\<lambda>_.
     andThen (tryCatch (perform sys (Checkout mainBranch))
                (\<lambda>_. andThen (consoleLog (warningSign
                         @ ''  Main branch is checked out elsewhere, using detached HEAD instead''))
                       (\<lambda>_. perform sys (CheckoutDetach mainBranch)))) (\<lambda>_.
     andThen (consoleLog (wastebasket @ ''  Removing worktree: '' @ currentDir)) (\<lambda>_.
     andThen (perform sys (WorktreeRemoveForce currentDir)) (\<lambda>_.
     andThen (consoleLog (checkMark @ '' Worktree removed successfully'')) (\<lambda>_.
     andThen (if forceRemove then switchToDirectory worktreeBase None else ret ()) (\<lambda>_.
     showMainRepoBranch sys worktreeBase mainBranch)))))))))))"

definition removeBody :: "'s sys \<Rightarrow> string list \<Rightarrow> string option \<Rightarrow> ('s, unit) prog" where
  \<comment> \<open>the \<open>try\<close> block of \<open>main\<close> in the remove script, up to the confirmation\<close>
  "removeBody sys args answer =
     (let forceRemove = (''--force'' \<in> set args \<or> ''-f'' \<in> set args) in
      andThen (validateGitRepository sys) (\<lambda>_.
      andThen (isCurrentDirectoryWorktree sys) (\<lambda>isWorktree.
      andThen (if \<not> isWorktree
               then andThen (consoleLog notInWorktreeMessage) (\<lambda>_. processExit 1)
               else ret ()) (\<lambda>_.
      andThen (getCurrentDirectory sys) (\<lambda>currentDir.
      andThen (getCurrentBranch sys None) (\<lambda>currentBranch.
      andThen (consoleLog (roundPushpin @ '' Current worktree: '' @ lastSegment currentDir)) (\<lambda>_.
      andThen (consoleLog (herb @ '' Current branch: '' @ currentBranch)) (\<lambda>_.
      andThen (consoleLog (fileFolder @ '' Path: '' @ currentDir)) (\<lambda>_.
      andThen (if \<not> forceRemove then askForConfirmation answer confirmationMessage
               else ret forceRemove) (\<lambda>confirmed.
      andThen (if \<not> confirmed
               then andThen (consoleLog cancelledMessage) (\<lambda>_. processExit 0)
               else ret ()) (\<lambda>_.
      removeConfirmed sys forceRemove currentDir)))))))))))"

definition main_remove :: "'s sys \<Rightarrow> string list \<Rightarrow> string option \<Rightarrow> ('s, unit) prog" where
  "main_remove sys args answer =
     tryCatch (removeBody sys args answer)
       (\<lambda>error.
          andThen (consoleLog (crossMark @ '' Error removing worktree:'')) (\<lambda>_.
          andThen (consoleError error) (\<lambda>_.
          processExit 1)))"

section \<open>Observations on a run\<close>

definition structuredLines :: "event list \<Rightarrow> string list" where
  \<comment> \<open>the paths of the printed lines of the form \<open>WORKTREE_PATH:<path>\<close>, in order\<close>
  "structuredLines evs =
     concat (map (\<lambda>ev. case ev of
                          Log l \<Rightarrow> if startsWith l ''WORKTREE_PATH:'' then [drop 14 l] else []
                        | _ \<Rightarrow> []) evs)"

definition forceFlag :: "string list \<Rightarrow> bool" where
  "forceFlag args = (''--force'' \<in> set args \<or> ''-f'' \<in> set args)"

definition affirmative :: "string option \<Rightarrow> bool" where
  \<comment> \<open>the answers that \<open>askForConfirmation\<close> takes as a yes\<close>
  "affirmative answer =
     (case answer of
        None \<Rightarrow> False
      | Some a \<Rightarrow> toLowerCase a = ''y'' \<or> toLowerCase a = ''yes'')"



section \<open>The statements of the specification\<close>

text \<open>
  The definitions of this section follow the words of the specification, not the code:
  they are what the code is compared with.
\<close>

subsection \<open>The worktree base\<close>

definition firstShortest :: "string \<Rightarrow> string list \<Rightarrow> bool" where
  \<comment> \<open>an entry of minimum length, the first such in the order of the list\<close>
  "firstShortest r paths =
     (r \<in> set paths \<and> list_all (\<lambda>q. length r \<le> length q) paths
        \<and> list_all (\<lambda>q. length r < length q) (takeWhile (\<lambda>q. q \<noteq> r) paths))"

definition spec_suffix_base :: "string \<Rightarrow> string list \<Rightarrow> exn + string" where
  \<comment> \<open>the base as the specification words it, for a given metadata-directory suffix: a
      path that ends with the suffix, with the suffix removed; otherwise the first
      shortest path\<close>
  "spec_suffix_base suf paths =
     (case find (\<lambda>p. endsWith p suf) paths of
        Some p \<Rightarrow> Inr (take (length p - length suf) p)
      | None \<Rightarrow> reduceShortest paths)"

fun spec_lex_le :: "string \<Rightarrow> string \<Rightarrow> bool" where
  \<comment> \<open>the lexicographic order of strings, by code unit\<close>
  "spec_lex_le [] t = True"
| "spec_lex_le (c # cs) [] = False"
| "spec_lex_le (c # cs) (d # ds) =
     ((of_char c :: nat) < of_char d \<or> (c = d \<and> spec_lex_le cs ds))"

definition spec_lex_least :: "string \<Rightarrow> string list \<Rightarrow> bool" where
  "spec_lex_least r paths = (r \<in> set paths \<and> list_all (spec_lex_le r) paths)"

subsection \<open>Failure kinds and cancellation\<close>

datatype failure = NotARepository | NotInWorktree | WorktreeCreateConflict | BackendUnavailable

fun spec_failureOf :: "event \<Rightarrow> failure list" where
  \<comment> \<open>the failure kind that a printed line reports, if any\<close>
  "spec_failureOf (Log l) = (if l = notInWorktreeMessage then [NotInWorktree] else [])"
| "spec_failureOf (LogError (Error m)) =
     (if m = ''Not in a git repository'' then [NotARepository] else [])"
| "spec_failureOf (LogError (QueryFailed q)) = [BackendUnavailable]"
| "spec_failureOf (LogError (ActionFailed (WorktreeAdd p b))) = [WorktreeCreateConflict]"
| "spec_failureOf (LogError (ActionFailed (WorktreeAddNewBranch p m b))) = [WorktreeCreateConflict]"
| "spec_failureOf ev = []"

definition spec_reported :: "event list \<Rightarrow> failure list" where
  "spec_reported evs = concat (map spec_failureOf evs)"

definition spec_onlyCancellation :: "event list \<Rightarrow> bool" where
  \<comment> \<open>no output beyond the cancellation message (the question itself apart)\<close>
  "spec_onlyCancellation evs =
     list_all (\<lambda>ev. case ev of Log l \<Rightarrow> l = cancelledMessage | Prompt t \<Rightarrow> True | _ \<Rightarrow> False) evs"

section \<open>The resolved main branch as a function of the backend state\<close>

text \<open>
  What \<open>discoverMainBranch\<close> returns and prints, written without the control operators:
  the first answer of the ordered chain, built from the same string functions as the
  code. It names the resolved main branch in the statements about the scripts.
\<close>

definition remoteDefaultOf :: "'s sys \<Rightarrow> 's \<Rightarrow> string option" where
  \<comment> \<open>the remote's symbolic default-branch pointer, when \<open>matchOriginRef\<close> finds a name\<close>
  "remoteDefaultOf sys w =
     (case run_query sys w SymbolicRefOriginHead of
        None \<Rightarrow> None
      | Some stdout \<Rightarrow> matchOriginRef (trim stdout))"

definition conventionalOf :: "'s sys \<Rightarrow> 's \<Rightarrow> string \<Rightarrow> string option" where
  \<comment> \<open>a conventional name: local existence first, then remote-tracking existence\<close>
  "conventionalOf sys w name =
     (case run_query sys w (ShowRefHeads name) of
        Some _ \<Rightarrow> Some name
      | None \<Rightarrow>
          (case run_query sys w (ShowRefRemotes name) of
             Some _ \<Rightarrow> Some name
           | None \<Rightarrow> None))"

definition firstListedOf :: "'s sys \<Rightarrow> 's \<Rightarrow> string option" where
  \<comment> \<open>the first line of the local branch listing, after \<open>stripMarker\<close>\<close>
  "firstListedOf sys w =
     (case run_query sys w BranchList of
        None \<Rightarrow> None
      | Some stdout \<Rightarrow>
          (case stripMarker (firstLine (trim stdout)) of
             [] \<Rightarrow> None
           | c # cs \<Rightarrow> Some (c # cs)))"

fun firstMatch :: "'a option list \<Rightarrow> 'a option" where
  "firstMatch [] = None"
| "firstMatch (None # rs) = firstMatch rs"
| "firstMatch (Some x # rs) = Some x"

definition mainBranchOf :: "'s sys \<Rightarrow> 's \<Rightarrow> string" where
  \<comment> \<open>the first match of the ordered chain, ending in the literal fallback\<close>
  "mainBranchOf sys w =
     (case firstMatch
             ([remoteDefaultOf sys w]
              @ map (conventionalOf sys w) [''main'', ''develop'', ''dev'', ''master'']
              @ [firstListedOf sys w]) of
        Some b \<Rightarrow> b
      | None \<Rightarrow> ''main'')"


definition conventionalNote :: "'s sys \<Rightarrow> 's \<Rightarrow> string \<Rightarrow> string option" where
  \<comment> \<open>the line that announces a conventional name\<close>
  "conventionalNote sys w name =
     (case run_query sys w (ShowRefHeads name) of
        Some _ \<Rightarrow> Some (''Using main branch: '' @ name)
      | None \<Rightarrow>
          (case run_query sys w (ShowRefRemotes name) of
             Some _ \<Rightarrow> Some (''Using main branch: '' @ name @ '' (from remote)'')
           | None \<Rightarrow> None))"

definition discoverNote :: "'s sys \<Rightarrow> 's \<Rightarrow> string" where
  \<comment> \<open>the one line that announces the resolved branch\<close>
  "discoverNote sys w =
     (case remoteDefaultOf sys w of
        Some b \<Rightarrow> ''Using default branch: '' @ b
      | None \<Rightarrow>
          (case firstMatch (map (conventionalNote sys w) commonMainBranches) of
             Some msg \<Rightarrow> msg
           | None \<Rightarrow>
               (case firstListedOf sys w of
                  Some b \<Rightarrow> ''Using fallback branch: '' @ b
                | None \<Rightarrow> ''Using default fallback: main'')))"

section \<open>A small backend for concrete runs\<close>

text \<open>
  The theorems below hold for every backend. To run the scripts on concrete inputs, this
  is a small one: the worktrees with the branch attached to each (empty when detached),
  the primary checkout first; the local and the remote-tracking branch names; the
  directory of the process and the directory in which the shell library runs its
  commands; and switches for the failures a real backend can show. The shell library
  runs every command in the directory the script was started in: \<open>process.chdir\<close> moves
  the process and not the commands.
\<close>

record demo =
  d_repo :: bool                            \<comment> \<open>inside a repository\<close>
  d_list_ok :: bool                         \<comment> \<open>\<open>git worktree list\<close> works\<close>
  d_cwd :: string                           \<comment> \<open>\<open>process.cwd()\<close>\<close>
  d_shell :: string                         \<comment> \<open>where the commands run\<close>
  d_worktrees :: "(string \<times> string) list"   \<comment> \<open>path and attached branch, in listing order\<close>
  d_missing :: "string list"                \<comment> \<open>listed worktrees whose directory is gone\<close>
  d_heads :: "string list"
  d_remotes :: "string list"
  d_origin_head :: string                   \<comment> \<open>what the symbolic-ref command prints\<close>

definition demo_line :: "string \<times> string \<Rightarrow> string" where
  "demo_line e =
     fst e @ ''  0a1b2c3 '' @ (if snd e = [] then ''(detached HEAD)'' else ''['' @ snd e @ '']'')
       @ [CHR 0x0A]"

definition demo_branch_at :: "demo \<Rightarrow> string \<Rightarrow> string option" where
  "demo_branch_at d p =
     (if p \<in> set (d_missing d) then None
      else map_option (\<lambda>b. b @ [CHR 0x0A]) (map_of (d_worktrees d) p))"

definition demo_busy :: "demo \<Rightarrow> string \<Rightarrow> bool" where
  \<comment> \<open>the branch is attached to a worktree other than the one the commands run in\<close>
  "demo_busy d b = (\<exists>e \<in> set (d_worktrees d). snd e = b \<and> fst e \<noteq> d_shell d)"

definition demo_branch_line :: "demo \<Rightarrow> string \<Rightarrow> string" where
  \<comment> \<open>a line of \<open>git branch --list\<close>: a star on the branch of the worktree the command runs
      in, a plus on a branch attached to another worktree\<close>
  "demo_branch_line d b =
     (if map_of (d_worktrees d) (d_shell d) = Some b then ''* ''
      else if demo_busy d b then ''+ ''
      else ''  '') @ b @ [CHR 0x0A]"

definition demo_branch_list :: "demo \<Rightarrow> string" where
  \<comment> \<open>a detached worktree comes first in the listing\<close>
  "demo_branch_list d =
     (if map_of (d_worktrees d) (d_shell d) = Some []
      then ''* (HEAD detached at 0a1b2c3)'' @ [CHR 0x0A] else [])
     @ concat (map (demo_branch_line d) (d_heads d))"

fun demo_query :: "demo \<Rightarrow> query \<Rightarrow> string option" where
  "demo_query d RevParseGitDir = (if d_repo d then Some (''.git'' @ [CHR 0x0A]) else None)"
| "demo_query d SymbolicRefOriginHead = Some (d_origin_head d)"
| "demo_query d (ShowRefHeads b) = (if b \<in> set (d_heads d) then Some [] else None)"
| "demo_query d (ShowRefRemotes b) = (if b \<in> set (d_remotes d) then Some [] else None)"
| "demo_query d BranchList = Some (demo_branch_list d)"
| "demo_query d WorktreeList =
     (if d_list_ok d then Some (concat (map demo_line (d_worktrees d))) else None)"
| "demo_query d (BranchShowCurrent None) = demo_branch_at d (d_shell d)"
| "demo_query d (BranchShowCurrent (Some p)) = demo_branch_at d p"

definition demo_attach :: "demo \<Rightarrow> string \<Rightarrow> demo" where
  \<comment> \<open>attach a branch (or nothing) to the worktree the commands run in\<close>
  "demo_attach d b =
     d\<lparr>d_worktrees := map (\<lambda>e. if fst e = d_shell d then (fst e, b) else e) (d_worktrees d)\<rparr>"

fun demo_action :: "demo \<Rightarrow> action \<Rightarrow> bool \<times> demo" where
  "demo_action d (WorktreeAdd p b) =
     (if b \<in> set (d_heads d) \<and> p \<notin> fst ` set (d_worktrees d) \<and> b \<notin> snd ` set (d_worktrees d)
      then (True, d\<lparr>d_worktrees := d_worktrees d @ [(p, b)]\<rparr>)
      else (False, d))"
| "demo_action d (WorktreeAddNewBranch p m b) =
     (if b \<notin> set (d_heads d) \<and> p \<notin> fst ` set (d_worktrees d) \<and> m \<in> set (d_heads d)
      then (True, d\<lparr>d_worktrees := d_worktrees d @ [(p, b)], d_heads := d_heads d @ [b]\<rparr>)
      else (False, d))"
| "demo_action d (Checkout b) =
     (if b \<in> set (d_heads d) \<and> \<not> demo_busy d b then (True, demo_attach d b) else (False, d))"
| "demo_action d (CheckoutDetach b) =
     (if b \<in> set (d_heads d) then (True, demo_attach d []) else (False, d))"
| "demo_action d (WorktreeRemoveForce p) =
     (if p \<in> fst ` set (tl (d_worktrees d))
      then (True, d\<lparr>d_worktrees := filter (\<lambda>e. fst e \<noteq> p) (d_worktrees d)\<rparr>)
      else (False, d))"
| "demo_action d (Chdir p) = (True, d\<lparr>d_cwd := p\<rparr>)"

definition demo_sys :: "demo sys" where
  "demo_sys = \<lparr>run_query = demo_query, run_action = demo_action, cwd = d_cwd\<rparr>"

definition demo_repo :: demo where
  \<comment> \<open>a primary checkout on \<open>dev\<close> with one linked worktree, seen from the linked worktree\<close>
  "demo_repo =
     \<lparr>d_repo = True, d_list_ok = True, d_cwd = ''/r/app/fix'', d_shell = ''/r/app/fix'',
      d_worktrees = [(''/r/app'', ''dev''), (''/r/app/fix'', ''fix'')],
      d_missing = [], d_heads = [''dev'', ''fix'', ''old''], d_remotes = [],
      d_origin_head = []\<rparr>"

definition demo_contended :: demo where
  \<comment> \<open>as \<open>demo_repo\<close>, with the primary checkout on \<open>old\<close> and \<open>dev\<close> attached to a third
      worktree\<close>
  "demo_contended =
     \<lparr>d_repo = True, d_list_ok = True, d_cwd = ''/r/app/fix'', d_shell = ''/r/app/fix'',
      d_worktrees = [(''/r/app'', ''old''), (''/r/app/fix'', ''fix''), (''/r/app/dev'', ''dev'')],
      d_missing = [], d_heads = [''dev'', ''fix'', ''old''], d_remotes = [],
      d_origin_head = []\<rparr>"

definition demo_gone :: demo where
  \<comment> \<open>as \<open>demo_repo\<close>, seen from the primary checkout, after the directory of the linked
      worktree was deleted by hand: the worktree is still listed\<close>
  "demo_gone =
     \<lparr>d_repo = True, d_list_ok = True, d_cwd = ''/r/app'', d_shell = ''/r/app'',
      d_worktrees = [(''/r/app'', ''dev''), (''/r/app/fix'', ''fix'')],
      d_missing = [''/r/app/fix''], d_heads = [''dev'', ''fix'', ''old''], d_remotes = [],
      d_origin_head = []\<rparr>"

definition demo_plain :: demo where
  \<comment> \<open>no remote and none of the conventional names: branches \<open>aaa\<close> and \<open>zzz\<close>, seen from
      the primary checkout on \<open>zzz\<close>, with \<open>aaa\<close> attached to a linked worktree\<close>
  "demo_plain =
     \<lparr>d_repo = True, d_list_ok = True, d_cwd = ''/r/app'', d_shell = ''/r/app'',
      d_worktrees = [(''/r/app'', ''zzz''), (''/r/app/aaa'', ''aaa'')],
      d_missing = [], d_heads = [''aaa'', ''zzz''], d_remotes = [],
      d_origin_head = []\<rparr>"

section \<open>The control operators, applied to a state\<close>

lemma ret_apply: "ret a st = (Ok a, st)"
  by (simp add: ret_def)
lemma throw_apply: "throw e st = (Throw e, st)"
  by (simp add: throw_def)
lemma processExit_apply: "processExit n st = (Exit n, st)"
  by (simp add: processExit_def)
lemma andThen_apply:
  "andThen m f st =
     (case m st of
        (Ok a, st') \<Rightarrow> f a st'
      | (Throw e, st') \<Rightarrow> (Throw e, st')
      | (Exit n, st') \<Rightarrow> (Exit n, st'))"
  by (simp add: andThen_def)
lemma tryCatch_apply:
  "tryCatch m h st =
     (case m st of
        (Ok a, st') \<Rightarrow> (Ok a, st')
      | (Throw e, st') \<Rightarrow> h e st'
      | (Exit n, st') \<Rightarrow> (Exit n, st'))"
  by (simp add: tryCatch_def)
lemma liftE_apply: "liftE r st = (case r of Inl e \<Rightarrow> (Throw e, st) | Inr a \<Rightarrow> (Ok a, st))"
  by (simp add: liftE_def ret_def throw_def split: sum.splits)
lemma emit_apply: "emit ev st = (Ok (), st\<lparr>out := out st @ [ev]\<rparr>)"
  by (simp add: emit_def)
lemma consoleLog_apply: "consoleLog s st = (Ok (), st\<lparr>out := out st @ [Log s]\<rparr>)"
  by (simp add: consoleLog_def emit_def)
lemma consoleError_apply: "consoleError e st = (Ok (), st\<lparr>out := out st @ [LogError e]\<rparr>)"
  by (simp add: consoleError_def emit_def)
lemma git_apply:
  "git sys q st =
     (case run_query sys (world st) q of
        Some stdout \<Rightarrow> (Ok stdout, st)
      | None \<Rightarrow> (Throw (QueryFailed q), st))"
  by (simp add: git_def)
lemma perform_apply:
  "perform sys a st =
     (if fst (run_action sys (world st) a) then Ok () else Throw (ActionFailed a),
      st\<lparr>world := snd (run_action sys (world st) a), acts := acts st @ [a]\<rparr>)"
  by (simp add: perform_def split: prod.splits)
lemma question_apply:
  "question answer text st =
     (case answer of Some a \<Rightarrow> Ok a | None \<Rightarrow> Exit 0,
      st\<lparr>out := out st @ [Prompt text]\<rparr>)"
  by (simp add: question_def andThen_apply emit_apply ret_def processExit_def
        split: option.splits)

lemmas prog_simps =
  ret_apply throw_apply processExit_apply andThen_apply tryCatch_apply liftE_apply emit_apply
  consoleLog_apply consoleError_apply git_apply perform_apply question_apply

lemma validateGitRepository_apply:
  "validateGitRepository sys st =
     (case run_query sys (world st) RevParseGitDir of
        Some g \<Rightarrow> (Ok (), st)
      | None \<Rightarrow> (Throw (Error ''Not in a git repository''), st))"
  by (simp add: validateGitRepository_def prog_simps split: option.splits)

lemma getWorktreePaths_apply:
  "getWorktreePaths sys st =
     (case run_query sys (world st) WorktreeList of
        Some stdout \<Rightarrow> (Ok (parseWorktreeList stdout), st)
      | None \<Rightarrow> (Throw (QueryFailed WorktreeList), st))"
  by (simp add: getWorktreePaths_def prog_simps split: option.splits)

lemma branchExistsLocally_apply:
  "branchExistsLocally sys b st = (Ok (run_query sys (world st) (ShowRefHeads b) \<noteq> None), st)"
  by (simp add: branchExistsLocally_def prog_simps split: option.splits)

lemma getCurrentDirectory_apply:
  "getCurrentDirectory sys st = (Ok (cwd sys (world st)), st)"
  by (simp add: getCurrentDirectory_def)

lemma getCurrentBranch_apply:
  "getCurrentBranch sys path st =
     (let q = BranchShowCurrent (case path of None \<Rightarrow> None | Some p \<Rightarrow> if truthy p then Some p else None)
      in case run_query sys (world st) q of
        Some stdout \<Rightarrow> (Ok (trim stdout), st)
      | None \<Rightarrow> (Throw (QueryFailed q), st))"
  by (simp add: getCurrentBranch_def prog_simps Let_def split: option.splits)

lemma isCurrentDirectoryWorktree_apply:
  "isCurrentDirectoryWorktree sys st =
     (Ok (case run_query sys (world st) WorktreeList of
            None \<Rightarrow> False
          | Some stdout \<Rightarrow>
              (case determineWorktreeBase (parseWorktreeList stdout) of
                 Inl e \<Rightarrow> False
               | Inr base \<Rightarrow> cwd sys (world st) \<noteq> base
                    \<and> cwd sys (world st) \<in> set (parseWorktreeList stdout))), st)"
  by (simp add: isCurrentDirectoryWorktree_def getWorktreePaths_apply getCurrentDirectory_apply
        prog_simps split: option.splits sum.splits)

lemma switchToDirectory_apply:
  "switchToDirectory p None st = (Ok (), st\<lparr>out := out st @ [Log (''WORKTREE_PATH:'' @ p)]\<rparr>)"
  by (simp add: switchToDirectory_def prog_simps)

lemma askForConfirmation_apply:
  "askForConfirmation answer m st =
     (case answer of Some a \<Rightarrow> Ok (affirmative answer) | None \<Rightarrow> Exit 0,
      st\<lparr>out := out st @ [Prompt (m @ '' (y/N): '')]\<rparr>)"
  by (simp add: askForConfirmation_def affirmative_def prog_simps split: option.splits)

lemma structuredLines_append [simp]:
  "structuredLines (xs @ ys) = structuredLines xs @ structuredLines ys"
  by (simp add: structuredLines_def)

lemma structuredLines_Nil [simp]: "structuredLines [] = []"
  by (simp add: structuredLines_def)

lemma matchOriginRef_Nil_iff: "matchOriginRef s = Some b \<Longrightarrow> s \<noteq> []"
  by (cases s) simp_all

lemma remoteDefaultStep_result:
  "remoteDefaultStep sys st =
     (Ok (remoteDefaultOf sys (world st)),
      st\<lparr>out := out st @ (case remoteDefaultOf sys (world st) of
                             None \<Rightarrow> []
                           | Some b \<Rightarrow> [Log (''Using default branch: '' @ b)])\<rparr>)"
  by (cases "matchOriginRef (trim (the (run_query sys (world st) SymbolicRefOriginHead)))")
     (auto simp add: remoteDefaultStep_def remoteDefaultOf_def prog_simps truthy_def Let_def
        split: option.splits dest: matchOriginRef_Nil_iff)

lemma commonBranchLoop_result:
  "commonBranchLoop sys bs st =
     (Ok (firstMatch (map (conventionalOf sys (world st)) bs)),
      st\<lparr>out := out st @ (case firstMatch (map (conventionalNote sys (world st)) bs) of
                             None \<Rightarrow> []
                           | Some msg \<Rightarrow> [Log msg])\<rparr>)"
proof (induction bs)
  case Nil
  show ?case by (simp add: prog_simps)
next
  case (Cons b bs)
  then show ?case
    by (auto simp add: prog_simps conventionalOf_def conventionalNote_def split: option.splits)
qed

lemma conventional_None_iff:
  "firstMatch (map (conventionalNote sys w) bs) = None
     \<longleftrightarrow> firstMatch (map (conventionalOf sys w) bs) = None"
  by (induction bs) (auto simp add: conventionalOf_def conventionalNote_def split: option.splits)

lemma firstBranchStep_result:
  "firstBranchStep sys st =
     (Ok (firstListedOf sys (world st)),
      st\<lparr>out := out st @ (case firstListedOf sys (world st) of
                             None \<Rightarrow> []
                           | Some b \<Rightarrow> [Log (''Using fallback branch: '' @ b)])\<rparr>)"
  by (auto simp add: firstBranchStep_def firstListedOf_def prog_simps truthy_def Let_def
        split: option.splits list.splits)

lemma firstMatch_append:
  "firstMatch (xs @ ys) = (case firstMatch xs of Some x \<Rightarrow> Some x | None \<Rightarrow> firstMatch ys)"
  by (induction xs rule: firstMatch.induct) simp_all

lemma firstMatch_chain:
  "firstMatch ([a] @ ms @ [c]) =
     (case a of
        Some b \<Rightarrow> Some b
      | None \<Rightarrow> (case firstMatch ms of Some b \<Rightarrow> Some b | None \<Rightarrow> c))"
  by (cases a; cases c) (simp_all add: firstMatch_append split: option.splits)

lemma mainBranchOf_alt:
  "mainBranchOf sys w =
     (case remoteDefaultOf sys w of
        Some b \<Rightarrow> b
      | None \<Rightarrow>
          (case firstMatch (map (conventionalOf sys w) commonMainBranches) of
             Some b \<Rightarrow> b
           | None \<Rightarrow> (case firstListedOf sys w of Some b \<Rightarrow> b | None \<Rightarrow> ''main'')))"
  unfolding mainBranchOf_def commonMainBranches_def[symmetric] firstMatch_chain
  by (simp split: option.splits)

lemma discoverMainBranch_result:
  "discoverMainBranch sys st =
     (Ok (mainBranchOf sys (world st)),
      st\<lparr>out := out st @ [Log (discoverNote sys (world st))]\<rparr>)"
proof (cases "remoteDefaultOf sys (world st)")
  case (Some b)
  then show ?thesis
    by (simp add: discoverMainBranch_def mainBranchOf_alt discoverNote_def
          remoteDefaultStep_result andThen_apply ret_apply)
next
  case n1: None
  show ?thesis
  proof (cases "firstMatch (map (conventionalOf sys (world st)) commonMainBranches)")
    case (Some b)
    moreover from Some obtain msg where
      "firstMatch (map (conventionalNote sys (world st)) commonMainBranches) = Some msg"
      using conventional_None_iff[of sys "world st" commonMainBranches] by (cases "firstMatch (map (conventionalNote sys (world st)) commonMainBranches)") auto
    ultimately show ?thesis using n1
      by (simp add: discoverMainBranch_def mainBranchOf_alt discoverNote_def
            remoteDefaultStep_result commonBranchLoop_result andThen_apply ret_apply)
  next
    case n2: None
    then have n2': "firstMatch (map (conventionalNote sys (world st)) commonMainBranches) = None"
      by (simp add: conventional_None_iff)
    show ?thesis
      using n1 n2 n2'
      by (cases "firstListedOf sys (world st)")
         (simp_all add: discoverMainBranch_def mainBranchOf_alt discoverNote_def
            remoteDefaultStep_result commonBranchLoop_result firstBranchStep_result
            andThen_apply ret_apply consoleLog_apply)
  qed
qed

lemma conventionalNote_Using:
  "firstMatch (map (conventionalNote sys w) bs) = Some msg \<Longrightarrow> take 6 msg = ''Using ''"
proof (induction bs)
  case Nil
  then show ?case by simp
next
  case (Cons b bs)
  show ?case
  proof (cases "conventionalNote sys w b")
    case None
    with Cons show ?thesis by simp
  next
    case (Some m)
    with Cons.prems have "m = msg" by simp
    with Some show ?thesis
      by (simp add: conventionalNote_def split: option.splits) auto
  qed
qed

lemma discoverNote_Using: "take 6 (discoverNote sys w) = ''Using ''"
proof (cases "remoteDefaultOf sys w")
  case (Some b)
  then show ?thesis by (simp add: discoverNote_def)
next
  case n1: None
  show ?thesis
  proof (cases "firstMatch (map (conventionalNote sys w) commonMainBranches)")
    case (Some msg)
    with n1 conventionalNote_Using[OF Some] show ?thesis by (simp add: discoverNote_def)
  next
    case None
    with n1 show ?thesis by (cases "firstListedOf sys w") (simp_all add: discoverNote_def)
  qed
qed

lemma structuredLines_Using:
  assumes "take 6 l = ''Using ''"
  shows "structuredLines [Log l] = []"
proof -
  have "take 14 l \<noteq> ''WORKTREE_PATH:''"
  proof
    assume "take 14 l = ''WORKTREE_PATH:''"
    then have "take 6 (take 14 l) = take 6 ''WORKTREE_PATH:''" by simp
    then have "take 6 l = ''WORKTR''" by (simp add: min_def)
    with assms show False by simp
  qed
  moreover have "length ''WORKTREE_PATH:'' = 14" by simp
  ultimately have "\<not> startsWith l ''WORKTREE_PATH:''" unfolding startsWith_def by metis
  then show ?thesis by (simp add: structuredLines_def)
qed

lemma structuredLines_discoverNote [simp]: "structuredLines [Log (discoverNote sys w)] = []"
  by (rule structuredLines_Using) (rule discoverNote_Using)

lemma startsWith_Nil [simp]: "startsWith s [] = True"
  by (simp add: startsWith_def)

lemma startsWith_Cons_Cons [simp]: "startsWith (c # s) (d # t) = (c = d \<and> startsWith s t)"
  by (simp add: startsWith_def)

lemma startsWith_discoverNote [simp]: "startsWith (discoverNote sys w) ''WORKTREE_PATH:'' = False"
proof -
  have "structuredLines [Log (discoverNote sys w)] = []" by simp
  then show ?thesis by (simp add: structuredLines_def split: if_splits)
qed

lemma structuredLines_Log [simp]:
  "structuredLines (Log l # evs) =
     (if startsWith l ''WORKTREE_PATH:'' then [drop 14 l] else []) @ structuredLines evs"
  by (simp add: structuredLines_def)

lemma structuredLines_other [simp]:
  "structuredLines (LogError e # evs) = structuredLines evs"
  "structuredLines (Prompt t # evs) = structuredLines evs"
  "structuredLines (Unexpected e # evs) = structuredLines evs"
  by (simp_all add: structuredLines_def)

lemma find_eq: "find (\<lambda>p. p = t) ps = (if t \<in> set ps then Some t else None)"
  by (induction ps) auto

lemmas emoji_defs = crossMark_def roundPushpin_def herb_def fileFolder_def warningSign_def
  openFolder_def wastebasket_def checkMark_def lightBulb_def

lemmas string_defs = trim_def truthy_def endsWith_def firstLine_def firstColumn_def
  lastSegment_def stripMarker_def stripSlashGit_def isSpace_def isLineTerminator_def
  toLowerCase_def toLowerChar_def parseWorktreeList_def determineWorktreeBase_def
  reduceShortest_def

lemmas demo_defs = demo_sys_def demo_repo_def demo_contended_def demo_gone_def demo_plain_def demo_line_def
  demo_branch_at_def demo_attach_def demo_busy_def demo_branch_line_def demo_branch_list_def

lemmas step_defs = validateGitRepository_apply isCurrentDirectoryWorktree_apply
  getWorktreePaths_apply getCurrentDirectory_apply getCurrentBranch_apply
  branchExistsLocally_apply switchToDirectory_apply askForConfirmation_apply
  switchToExistingWorktree_def createWorktreeWithExistingBranch_def
  createWorktreeWithNewBranch_def showMainRepoBranch_def discoverMainBranch_result
  prog_simps Let_def

lemmas script_defs = runScript_def main_remove_def removeBody_def removeConfirmed_def
  main_add_def addBody_def initial_def step_defs

lemmas chain_defs = mainBranchOf_def remoteDefaultOf_def conventionalOf_def
  firstListedOf_def discoverNote_def conventionalNote_def commonMainBranches_def

section \<open>Path Resolver: properties\<close>

lemma takeWhile_before:
  assumes "r \<notin> set pre"
  shows "takeWhile (\<lambda>q. q \<noteq> r) (pre @ r # post) = pre"
  using assms by (induction pre) auto

lemma foldl_shortest_split:
  "\<exists>pre post. p # ps = pre @ foldl (\<lambda>shortest current.
         if length current < length shortest then current else shortest) p ps # post
     \<and> (\<forall>q \<in> set pre. length (foldl (\<lambda>shortest current.
         if length current < length shortest then current else shortest) p ps) < length q)
     \<and> (\<forall>q \<in> set post. length (foldl (\<lambda>shortest current.
         if length current < length shortest then current else shortest) p ps) \<le> length q)"
proof (induction ps rule: rev_induct)
  case Nil
  have "[p] = [] @ p # []" by simp
  then show ?case by fastforce
next
  case (snoc x xs)
  let ?f = "\<lambda>shortest current. if length current < length shortest then current else shortest"
  let ?r = "foldl ?f p xs"
  from snoc obtain pre post where
    eq: "p # xs = pre @ ?r # post" and
    a: "\<forall>q \<in> set pre. length ?r < length q" and
    b: "\<forall>q \<in> set post. length ?r \<le> length q"
    by blast
  show ?case
  proof (cases "length x < length ?r")
    case True
    have "p # xs @ [x] = (pre @ ?r # post) @ x # []" using eq by simp
    moreover have "\<forall>q \<in> set (pre @ ?r # post). length x < length q"
      using a b True by fastforce
    ultimately show ?thesis
      using True by (intro exI[of _ "pre @ ?r # post"] exI[of _ "[]"]) simp
  next
    case False
    have "p # xs @ [x] = pre @ ?r # (post @ [x])" using eq by simp
    moreover have "\<forall>q \<in> set (post @ [x]). length ?r \<le> length q"
      using b False by auto
    ultimately show ?thesis
      using False a by (intro exI[of _ pre] exI[of _ "post @ [x]"]) simp
  qed
qed

lemma reduceShortest_firstShortest:
  assumes "paths \<noteq> []"
  shows "\<exists>r. reduceShortest paths = Inr r \<and> firstShortest r paths"
proof -
  from assms obtain p ps where paths: "paths = p # ps" by (cases paths) auto
  let ?r = "foldl (\<lambda>shortest current.
              if length current < length shortest then current else shortest) p ps"
  obtain pre post where
    eq: "p # ps = pre @ ?r # post" and
    a: "\<forall>q \<in> set pre. length ?r < length q" and
    b: "\<forall>q \<in> set post. length ?r \<le> length q"
    using foldl_shortest_split[of p ps] by blast
  from a have "?r \<notin> set pre" by auto
  then have tw: "takeWhile (\<lambda>q. q \<noteq> ?r) (p # ps) = pre"
    unfolding eq by (rule takeWhile_before)
  have "?r \<in> set (p # ps)" unfolding eq by simp
  moreover have "list_all (\<lambda>q. length ?r \<le> length q) (p # ps)"
    unfolding eq using a b by (auto simp add: list_all_iff less_imp_le)
  moreover have "list_all (\<lambda>q. length ?r < length q) (takeWhile (\<lambda>q. q \<noteq> ?r) (p # ps))"
    unfolding tw using a by (simp add: list_all_iff)
  ultimately have "firstShortest ?r (p # ps)" unfolding firstShortest_def by blast
  then show ?thesis by (simp add: paths reduceShortest_def)
qed

lemma find_endsWith:
  "find (\<lambda>p. endsWith p ''.git'') paths = Some p \<Longrightarrow> endsWith p ''.git''"
  by (induction paths) (auto split: if_splits)

lemma endsWith_truthy: "endsWith p ''.git'' \<Longrightarrow> truthy p"
  by (auto simp add: endsWith_def truthy_def)

text \<open>
  Claim C3. For the list \<open>/repos/project.git\<close>, \<open>/r\<close> the code takes its bare branch
  (a path ends with \<open>.git\<close>) and returns \<open>/repos/project.git\<close> as it is: the test is for
  the ending \<open>.git\<close>, the strip only for the ending \<open>/.git\<close>. The claim gives the path
  with the suffix removed, \<open>/repos/project\<close> (or, with \<open>/.git\<close> read as the suffix, the
  shortest path \<open>/r\<close>). Where the bare path does end with \<open>/.git\<close> the code returns its
  parent, as the claim says.
\<close>

theorem determineWorktreeBase_bare_not_stripped:
  "determineWorktreeBase [''/repos/project.git'', ''/r''] = Inr ''/repos/project.git''
   \<and> spec_suffix_base ''.git'' [''/repos/project.git'', ''/r''] = Inr ''/repos/project''
   \<and> spec_suffix_base ''/.git'' [''/repos/project.git'', ''/r''] = Inr ''/r''
   \<and> determineWorktreeBase [''/r/app/.git'', ''/r/app/fix''] = Inr ''/r/app''"
  by (simp add: determineWorktreeBase_def spec_suffix_base_def endsWith_def truthy_def
        stripSlashGit_def reduceShortest_def)

text \<open>
  Claim C9, as amended. For every non-empty standard-style list of worktree paths (no
  path ends with \<open>.git\<close>), the base is the entry of minimum length, the first such in
  the order of the list.
\<close>

theorem standard_base_first_shortest:
  assumes "paths \<noteq> []" and "\<not> list_ex (\<lambda>p. endsWith p ''.git'') paths"
  shows "\<exists>r. determineWorktreeBase paths = Inr r \<and> firstShortest r paths"
proof -
  from assms(2) have "find (\<lambda>p. endsWith p ''.git'') paths = None"
    by (simp add: find_None_iff list_ex_iff)
  then have "determineWorktreeBase paths = reduceShortest paths"
    by (simp add: determineWorktreeBase_def)
  with reduceShortest_firstShortest[OF assms(1)] show ?thesis by simp
qed

theorem standard_base_first_shortest_witness:
  "[''/r/app/fix'', ''/b'', ''/a''] \<noteq> []
   \<and> \<not> list_ex (\<lambda>p. endsWith p ''.git'') [''/r/app/fix'', ''/b'', ''/a'']
   \<and> determineWorktreeBase [''/r/app/fix'', ''/b'', ''/a''] = Inr ''/b''
   \<and> (\<exists>r. determineWorktreeBase [''/r/app/fix'', ''/b'', ''/a''] = Inr r
          \<and> firstShortest r [''/r/app/fix'', ''/b'', ''/a''])"
  using standard_base_first_shortest [of "[''/r/app/fix'', ''/b'', ''/a'']"]
  by (simp add: determineWorktreeBase_def endsWith_def reduceShortest_def)

text \<open>
  Claim C9, as stated, fails on the standard-style list \<open>/b\<close>, \<open>/a\<close>: the code returns
  \<open>/b\<close>, which is not the lexicographically least entry (\<open>/a\<close> is).
\<close>

theorem standard_base_lexicographic_counterexample:
  "determineWorktreeBase [''/b'', ''/a''] = Inr ''/b''
   \<and> \<not> spec_lex_least ''/b'' [''/b'', ''/a'']
   \<and> spec_lex_least ''/a'' [''/b'', ''/a'']"
  by (simp add: determineWorktreeBase_def endsWith_def reduceShortest_def spec_lex_least_def)

text \<open>
  Claim C10. For every path list whose first path ending in \<open>.git\<close> does not end in
  \<open>/.git\<close>, \<open>determineWorktreeBase\<close> takes the bare branch and returns that path
  unchanged.
\<close>

theorem bare_path_without_slash_unchanged:
  assumes "find (\<lambda>p. endsWith p ''.git'') paths = Some p" and "\<not> endsWith p ''/.git''"
  shows "determineWorktreeBase paths = Inr p"
  using assms find_endsWith[OF assms(1)]
  by (simp add: determineWorktreeBase_def endsWith_truthy stripSlashGit_def)

theorem bare_path_without_slash_unchanged_witness:
  "find (\<lambda>p. endsWith p ''.git'') [''/r/app'', ''/repos/project.git'']
     = Some ''/repos/project.git''
   \<and> \<not> endsWith ''/repos/project.git'' ''/.git''
   \<and> determineWorktreeBase [''/r/app'', ''/repos/project.git''] = Inr ''/repos/project.git''"
  using bare_path_without_slash_unchanged
          [of "[''/r/app'', ''/repos/project.git'']" "''/repos/project.git''"]
  by (simp add: endsWith_def)

section \<open>Main-Branch Resolver: properties\<close>

text \<open>
  Claim C2. In a repository with no remote and none of the conventional names, with
  local branches \<open>aaa\<close> and \<open>zzz\<close>, seen from the checkout of \<open>zzz\<close> while \<open>aaa\<close> is
  attached to a linked worktree, the branch listing starts with the line \<open>+ aaa\<close>. The
  code strips a leading star only, and returns \<open>+ aaa\<close>, which is not a branch of the
  repository; the claim gives the first entry with its marker stripped, \<open>aaa\<close>. In a
  detached checkout the code returns the text of the listing's first line,
  \<open>(HEAD detached at 0a1b2c3)\<close>.
\<close>

theorem discoverMainBranch_marker_kept:
  "run_query demo_sys demo_plain BranchList
     = Some (''+ aaa'' @ [CHR 0x0A] @ ''* zzz'' @ [CHR 0x0A])
   \<and> discoverMainBranch demo_sys (initial demo_plain)
       = (Ok ''+ aaa'',
          \<lparr>world = demo_plain, out = [Log ''Using fallback branch: + aaa''], acts = []\<rparr>)
   \<and> d_heads demo_plain = [''aaa'', ''zzz'']
   \<and> ''+ aaa'' \<notin> set (d_heads demo_plain)
   \<and> fst (discoverMainBranch demo_sys
             (initial (demo_plain\<lparr>d_worktrees := [(''/r/app'', []), (''/r/app/aaa'', ''aaa'')]\<rparr>)))
       = Ok ''(HEAD detached at 0a1b2c3)''"
  by code_simp

text \<open>
  The other links of the chain, on the small backend: the remote's default-branch
  pointer; a conventional name that exists locally, and one that exists only as a
  remote-tracking branch; the first listed branch when it carries the star; the literal
  fallback when there is no branch at all.
\<close>

lemma discoverMainBranch_links:
  "fst (discoverMainBranch demo_sys
          (initial (demo_plain\<lparr>d_origin_head := ''refs/remotes/origin/trunk'' @ [CHR 0x0A]\<rparr>)))
     = Ok ''trunk''"
  "fst (discoverMainBranch demo_sys (initial demo_repo)) = Ok ''dev''"
  "fst (discoverMainBranch demo_sys (initial (demo_plain\<lparr>d_remotes := [''master'']\<rparr>)))
     = Ok ''master''"
  "fst (discoverMainBranch demo_sys
          (initial (demo_plain\<lparr>d_worktrees := [(''/r/app'', ''aaa'')]\<rparr>)))
     = Ok ''aaa''"
  "fst (discoverMainBranch demo_sys
          (initial (demo_plain\<lparr>d_worktrees := [], d_heads := []\<rparr>)))
     = Ok ''main''"
  by code_simp+

section \<open>The remove script: properties\<close>

text \<open>
  Claim C5. In a repository, when the current directory is the worktree base or is not
  in the worktree list, the remove script reports that it is not in a worktree, exits
  with code 1 and changes nothing.
\<close>

theorem remove_outside_worktree:
  assumes "run_query sys w RevParseGitDir = Some g"
      and "run_query sys w WorktreeList = Some listing"
      and "determineWorktreeBase (parseWorktreeList listing) = Inr base"
      and "cwd sys w = base \<or> cwd sys w \<notin> set (parseWorktreeList listing)"
  shows "runScript (main_remove sys args answer) w =
           (1, \<lparr>world = w, out = [Log notInWorktreeMessage], acts = []\<rparr>)
         \<and> spec_reported (out (snd (runScript (main_remove sys args answer) w)))
             = [NotInWorktree]"
  using assms by (auto simp add: script_defs spec_reported_def)

theorem remove_outside_worktree_witness:
  "run_query demo_sys (demo_repo\<lparr>d_cwd := ''/r/app'', d_shell := ''/r/app''\<rparr>) RevParseGitDir = Some (''.git'' @ [CHR 0x0A])
   \<and> run_query demo_sys (demo_repo\<lparr>d_cwd := ''/r/app'', d_shell := ''/r/app''\<rparr>) WorktreeList
       = Some (concat (map demo_line [(''/r/app'', ''dev''), (''/r/app/fix'', ''fix'')]))
   \<and> determineWorktreeBase (parseWorktreeList
         (concat (map demo_line [(''/r/app'', ''dev''), (''/r/app/fix'', ''fix'')]))) = Inr ''/r/app''
   \<and> cwd demo_sys (demo_repo\<lparr>d_cwd := ''/r/app'', d_shell := ''/r/app''\<rparr>) = ''/r/app''
   \<and> runScript (main_remove demo_sys [''--force''] None) (demo_repo\<lparr>d_cwd := ''/r/app'', d_shell := ''/r/app''\<rparr>) =
       (1, \<lparr>world = demo_repo\<lparr>d_cwd := ''/r/app'', d_shell := ''/r/app''\<rparr>, out = [Log notInWorktreeMessage], acts = []\<rparr>)"
  using remove_outside_worktree [of demo_sys "demo_repo\<lparr>d_cwd := ''/r/app'', d_shell := ''/r/app''\<rparr>"
          "''.git'' @ [CHR 0x0A]"
          "concat (map demo_line [(''/r/app'', ''dev''), (''/r/app/fix'', ''fix'')])"
          "''/r/app''" "[''--force'']" None]
  by (simp add: demo_defs string_defs)

text \<open>
  Claim C6, as amended. A remove run without the force flag that reaches the question
  and gets an answer that is not a yes, or whose prompt is interrupted, exits with code
  0 and changes nothing, and it prints no structured line. Before the question it has
  printed three status lines; after the question it prints the cancellation message
  when an answer was given, and nothing when the prompt was interrupted.
\<close>

theorem remove_declined:
  assumes "run_query sys w RevParseGitDir = Some g"
      and "run_query sys w WorktreeList = Some listing"
      and "determineWorktreeBase (parseWorktreeList listing) = Inr base"
      and "cwd sys w \<noteq> base" and "cwd sys w \<in> set (parseWorktreeList listing)"
      and "run_query sys w (BranchShowCurrent None) = Some branch"
      and "\<not> forceFlag args" and "\<not> affirmative answer"
  shows "runScript (main_remove sys args answer) w =
           (0, \<lparr>world = w,
                out = [Log (roundPushpin @ '' Current worktree: '' @ lastSegment (cwd sys w)),
                       Log (herb @ '' Current branch: '' @ trim branch),
                       Log (fileFolder @ '' Path: '' @ cwd sys w),
                       Prompt (confirmationMessage @ '' (y/N): '')]
                      @ (case answer of None \<Rightarrow> [] | Some a \<Rightarrow> [Log cancelledMessage]),
                acts = []\<rparr>)
         \<and> structuredLines (out (snd (runScript (main_remove sys args answer) w))) = []"
  using assms
  by (cases answer)
     (simp_all add: script_defs forceFlag_def emoji_defs cancelledMessage_def)

theorem remove_declined_witness:
  "run_query demo_sys demo_repo RevParseGitDir = Some (''.git'' @ [CHR 0x0A])
   \<and> run_query demo_sys demo_repo WorktreeList
       = Some (concat (map demo_line [(''/r/app'', ''dev''), (''/r/app/fix'', ''fix'')]))
   \<and> determineWorktreeBase (parseWorktreeList
         (concat (map demo_line [(''/r/app'', ''dev''), (''/r/app/fix'', ''fix'')]))) = Inr ''/r/app''
   \<and> cwd demo_sys demo_repo = ''/r/app/fix''
   \<and> run_query demo_sys demo_repo (BranchShowCurrent None) = Some (''fix'' @ [CHR 0x0A])
   \<and> \<not> forceFlag [] \<and> \<not> affirmative (Some ''no'') \<and> \<not> affirmative None
   \<and> runScript (main_remove demo_sys [] (Some ''no'')) demo_repo =
           (0, \<lparr>world = demo_repo,
                out = [Log (roundPushpin @ '' Current worktree: fix''),
                       Log (herb @ '' Current branch: fix''),
                       Log (fileFolder @ '' Path: /r/app/fix''),
                       Prompt (confirmationMessage @ '' (y/N): ''),
                       Log cancelledMessage],
                acts = []\<rparr>)
   \<and> runScript (main_remove demo_sys [] None) demo_repo =
           (0, \<lparr>world = demo_repo,
                out = [Log (roundPushpin @ '' Current worktree: fix''),
                       Log (herb @ '' Current branch: fix''),
                       Log (fileFolder @ '' Path: /r/app/fix''),
                       Prompt (confirmationMessage @ '' (y/N): '')],
                acts = []\<rparr>)"
  using remove_declined [of demo_sys demo_repo "''.git'' @ [CHR 0x0A]"
          "concat (map demo_line [(''/r/app'', ''dev''), (''/r/app/fix'', ''fix'')])"
          "''/r/app''" "''fix'' @ [CHR 0x0A]" "[]" "Some ''no''"]
        remove_declined [of demo_sys demo_repo "''.git'' @ [CHR 0x0A]"
          "concat (map demo_line [(''/r/app'', ''dev''), (''/r/app/fix'', ''fix'')])"
          "''/r/app''" "''fix'' @ [CHR 0x0A]" "[]" None]
  by (simp add: demo_defs string_defs forceFlag_def affirmative_def)

text \<open>
  Claim C6, as stated, fails on the small backend with the answer \<open>n\<close>: before the
  cancellation message the run has printed three status lines.
\<close>

theorem remove_declined_output_counterexample:
  "fst (runScript (main_remove demo_sys [] (Some ''n'')) demo_repo) = 0
   \<and> out (snd (runScript (main_remove demo_sys [] (Some ''n'')) demo_repo)) =
       [Log (roundPushpin @ '' Current worktree: fix''),
        Log (herb @ '' Current branch: fix''),
        Log (fileFolder @ '' Path: /r/app/fix''),
        Prompt (confirmationMessage @ '' (y/N): ''),
        Log cancelledMessage]
   \<and> \<not> spec_onlyCancellation
         (out (snd (runScript (main_remove demo_sys [] (Some ''n'')) demo_repo)))"
  by code_simp

text \<open>
  Claim C8, as amended. In a repository, when the query for the worktree list fails,
  the remove script stops with exit code 1 and changes nothing; what it reports is
  that it is not in a worktree.
\<close>

theorem remove_list_query_fails:
  assumes "run_query sys w RevParseGitDir = Some g"
      and "run_query sys w WorktreeList = None"
  shows "runScript (main_remove sys args answer) w =
           (1, \<lparr>world = w, out = [Log notInWorktreeMessage], acts = []\<rparr>)"
  using assms by (simp add: script_defs)

theorem remove_list_query_fails_witness:
  "run_query demo_sys (demo_repo\<lparr>d_list_ok := False\<rparr>) RevParseGitDir = Some (''.git'' @ [CHR 0x0A])
   \<and> run_query demo_sys (demo_repo\<lparr>d_list_ok := False\<rparr>) WorktreeList = None
   \<and> runScript (main_remove demo_sys [] (Some ''y'')) (demo_repo\<lparr>d_list_ok := False\<rparr>) =
       (1, \<lparr>world = demo_repo\<lparr>d_list_ok := False\<rparr>, out = [Log notInWorktreeMessage], acts = []\<rparr>)"
  using remove_list_query_fails [of demo_sys "demo_repo\<lparr>d_list_ok := False\<rparr>"
          "''.git'' @ [CHR 0x0A]" "[]" "Some ''y''"]
  by (simp add: demo_defs)

text \<open>
  Claim C8, as stated, fails on the small backend with a failing list query: the run
  reports the kind \<open>NotInWorktree\<close>, not \<open>BackendUnavailable\<close>.
\<close>

theorem remove_list_query_kind_counterexample:
  "run_query demo_sys (demo_repo\<lparr>d_list_ok := False\<rparr>) RevParseGitDir \<noteq> None
   \<and> run_query demo_sys (demo_repo\<lparr>d_list_ok := False\<rparr>) WorktreeList = None
   \<and> fst (runScript (main_remove demo_sys [''--force''] None) (demo_repo\<lparr>d_list_ok := False\<rparr>)) = 1
   \<and> out (snd (runScript (main_remove demo_sys [''--force''] None)
                    (demo_repo\<lparr>d_list_ok := False\<rparr>))) = [Log notInWorktreeMessage]
   \<and> spec_reported (out (snd (runScript (main_remove demo_sys [''--force''] None)
                                   (demo_repo\<lparr>d_list_ok := False\<rparr>)))) = [NotInWorktree]"
  by code_simp





section \<open>The add script: properties\<close>

text \<open>
  Claim C1, as amended. In a repository with a worktree base, the add script tests three
  cases in order. If \<open>base/branchName\<close> is in the worktree list it issues no mutating
  command and leaves the backend as it was; it emits that path and exits with code 0
  when the branch attached there can be read back, and exits with code 1 with no path
  emitted when it cannot. Otherwise, if the branch exists locally, the one command it
  issues adds a worktree at \<open>base/branchName\<close> for that branch. Otherwise the one command
  it issues adds a worktree at \<open>base/branchName\<close> with \<open>branchName\<close> as a new branch from
  the resolved main branch. In these two cases it emits the path and exits with code 0
  when the command and the read-back of the branch succeed, and exits with code 1 with
  no path emitted when one of them fails.
\<close>

theorem add_dispatch:
  fixes sys :: "'s sys" and w :: 's and b base target :: string and rest :: "string list"
    and R :: "nat \<times> 's pstate"
  assumes valid: "run_query sys w RevParseGitDir = Some g"
      and listing: "run_query sys w WorktreeList = Some listing"
      and base: "determineWorktreeBase (parseWorktreeList listing) = Inr base"
  defines "target \<equiv> base @ ''/'' @ b"
  defines "R \<equiv> runScript (main_add sys (b # rest)) w"
  shows "if target \<in> set (parseWorktreeList listing) then
           acts (snd R) = [] \<and> world (snd R) = w
           \<and> (if run_query sys w (BranchShowCurrent (Some target)) \<noteq> None
               then fst R = 0 \<and> structuredLines (out (snd R)) = [target]
               else fst R = 1 \<and> structuredLines (out (snd R)) = [])
         else if run_query sys w (ShowRefHeads b) \<noteq> None then
           acts (snd R) = [WorktreeAdd target b]
           \<and> world (snd R) = snd (run_action sys w (WorktreeAdd target b))
           \<and> (if fst (run_action sys w (WorktreeAdd target b))
                  \<and> run_query sys (snd (run_action sys w (WorktreeAdd target b)))
                       (BranchShowCurrent (Some target)) \<noteq> None
               then fst R = 0 \<and> structuredLines (out (snd R)) = [target]
               else fst R = 1 \<and> structuredLines (out (snd R)) = [])
         else
           acts (snd R) = [WorktreeAddNewBranch target (mainBranchOf sys w) b]
           \<and> world (snd R)
               = snd (run_action sys w
                       (WorktreeAddNewBranch target (mainBranchOf sys w) b))
           \<and> (if fst (run_action sys w
                         (WorktreeAddNewBranch target (mainBranchOf sys w) b))
                  \<and> run_query sys
                       (snd (run_action sys w
                              (WorktreeAddNewBranch target (mainBranchOf sys w) b)))
                       (BranchShowCurrent (Some target)) \<noteq> None
               then fst R = 0 \<and> structuredLines (out (snd R)) = [target]
               else fst R = 1 \<and> structuredLines (out (snd R)) = [])"
proof -
  let ?t = "base @ ''/'' @ b"
  have t: "truthy ?t" by (simp add: truthy_def)
  show ?thesis
  proof (cases "?t \<in> set (parseWorktreeList listing)")
    case True
    with t valid listing base show ?thesis
      by (cases "run_query sys w (BranchShowCurrent (Some ?t))")
         (simp_all add: target_def R_def script_defs find_eq)
  next
    case False
    show ?thesis
    proof (cases "run_query sys w (ShowRefHeads b)")
      case (Some h)
      with False t valid listing base show ?thesis
        by (cases "run_query sys (snd (run_action sys w (WorktreeAdd ?t b)))
                      (BranchShowCurrent (Some ?t))";
            cases "fst (run_action sys w (WorktreeAdd ?t b))")
           (simp_all add: target_def R_def script_defs find_eq)
    next
      case None
      with False t valid listing base show ?thesis
        by (cases "run_query sys
                      (snd (run_action sys w
                             (WorktreeAddNewBranch ?t (mainBranchOf sys w) b)))
                      (BranchShowCurrent (Some ?t))";
            cases "fst (run_action sys w
                          (WorktreeAddNewBranch ?t (mainBranchOf sys w) b))")
           (simp_all add: target_def R_def script_defs find_eq)
    qed
  qed
qed

theorem add_dispatch_witness:
  "run_query demo_sys demo_repo RevParseGitDir = Some (''.git'' @ [CHR 0x0A])
   \<and> run_query demo_sys demo_repo WorktreeList
       = Some (concat (map demo_line [(''/r/app'', ''dev''), (''/r/app/fix'', ''fix'')]))
   \<and> determineWorktreeBase (parseWorktreeList
         (concat (map demo_line [(''/r/app'', ''dev''), (''/r/app/fix'', ''fix'')]))) = Inr ''/r/app''
   \<and> acts (snd (runScript (main_add demo_sys [''new'']) demo_repo))
       = [WorktreeAddNewBranch ''/r/app/new'' ''dev'' ''new'']
   \<and> fst (runScript (main_add demo_sys [''new'']) demo_repo) = 0
   \<and> structuredLines (out (snd (runScript (main_add demo_sys [''new'']) demo_repo)))
       = [''/r/app/new'']
   \<and> acts (snd (runScript (main_add demo_sys [''fix'']) demo_repo)) = []
   \<and> world (snd (runScript (main_add demo_sys [''fix'']) demo_repo)) = demo_repo
   \<and> fst (runScript (main_add demo_sys [''fix'']) demo_repo) = 0
   \<and> structuredLines (out (snd (runScript (main_add demo_sys [''fix'']) demo_repo)))
       = [''/r/app/fix'']"
  using add_dispatch [of demo_sys demo_repo "''.git'' @ [CHR 0x0A]"
          "concat (map demo_line [(''/r/app'', ''dev''), (''/r/app/fix'', ''fix'')])"
          "''/r/app''" "''new''" "[]"]
        add_dispatch [of demo_sys demo_repo "''.git'' @ [CHR 0x0A]"
          "concat (map demo_line [(''/r/app'', ''dev''), (''/r/app/fix'', ''fix'')])"
          "''/r/app''" "''fix''" "[]"]
  by (simp add: demo_defs string_defs chain_defs)

text \<open>
  Claim C1, as stated, fails on the small backend where the directory of the listed
  worktree \<open>/r/app/fix\<close> is gone: the path is in the worktree list, the script prints
  that it switched, fails to read the branch there, and exits with code 1 having
  emitted no path (and changed nothing).
\<close>

theorem add_switch_unreadable_counterexample:
  "run_query demo_sys demo_gone RevParseGitDir = Some (''.git'' @ [CHR 0x0A])
   \<and> parseWorktreeList (concat (map demo_line (d_worktrees demo_gone)))
       = [''/r/app'', ''/r/app/fix'']
   \<and> determineWorktreeBase [''/r/app'', ''/r/app/fix''] = Inr ''/r/app''
   \<and> run_query demo_sys demo_gone (BranchShowCurrent (Some ''/r/app/fix'')) = None
   \<and> runScript (main_add demo_sys [''fix'']) demo_gone
       = (1, \<lparr>world = demo_gone,
               out = [Log ''Using main branch: dev'',
                      Log ''Switched to existing worktree: /r/app/fix'',
                      Log ''Error managing worktree:'',
                      LogError (QueryFailed (BranchShowCurrent (Some ''/r/app/fix'')))],
               acts = []\<rparr>)
   \<and> structuredLines (out (snd (runScript (main_add demo_sys [''fix'']) demo_gone))) = []"
  by code_simp

section \<open>The structured output line\<close>

lemma removeConfirmed_lines:
  assumes "removeConfirmed sys force cur st = (r, st')"
  shows "(\<forall>n. r \<noteq> Exit n)
     \<and> (r = Ok () \<longrightarrow>
          (\<exists>p. structuredLines (out st') = structuredLines (out st) @ (if force then [p] else [])))
     \<and> (\<not> force \<longrightarrow> structuredLines (out st') = structuredLines (out st))"
  using assms
  by (auto simp add: removeConfirmed_def step_defs emoji_defs
      split: option.splits sum.splits if_splits)

lemma removeBody_lines:
  assumes "removeBody sys args answer st = (r, st')" and "structuredLines (out st) = []"
  shows "(\<forall>n. r = Exit n \<longrightarrow> n = 1 \<or> (n = 0 \<and> \<not> forceFlag args))
    \<and> (r = Ok () \<longrightarrow> (\<exists>p. structuredLines (out st') = (if forceFlag args then [p] else [])))
    \<and> (\<not> forceFlag args \<longrightarrow> structuredLines (out st') = [])"
  using assms
  by (auto simp add: removeBody_def step_defs emoji_defs forceFlag_def cancelledMessage_def
        notInWorktreeMessage_def
      split: option.splits sum.splits if_splits dest!: removeConfirmed_lines)

lemma addBody_lines:
  assumes "addBody sys b st = (r, st')"
  shows "(\<forall>n. r \<noteq> Exit n) \<and>
     (r = Ok () \<longrightarrow> (\<exists>p. structuredLines (out st') = structuredLines (out st) @ [p]))"
  using assms
  by (auto simp add: addBody_def step_defs find_eq
      split: option.splits sum.splits if_splits)

text \<open>
  Claim C4, as amended. Every add run that exits with code 0 has printed exactly one
  structured line; so has every remove run with the force flag that exits with code 0;
  a remove run without the force flag prints no structured line, whatever its outcome.
\<close>

theorem structured_line_count:
  "(fst (runScript (main_add sys addArgs) w) = 0 \<longrightarrow>
      (\<exists>p. structuredLines (out (snd (runScript (main_add sys addArgs) w))) = [p]))
   \<and> (forceFlag args \<and> fst (runScript (main_remove sys args answer) w) = 0 \<longrightarrow>
      (\<exists>p. structuredLines (out (snd (runScript (main_remove sys args answer) w))) = [p]))
   \<and> (\<not> forceFlag args \<longrightarrow>
      structuredLines (out (snd (runScript (main_remove sys args answer) w))) = [])"
proof (intro conjI)
  show "fst (runScript (main_add sys addArgs) w) = 0 \<longrightarrow>
      (\<exists>p. structuredLines (out (snd (runScript (main_add sys addArgs) w))) = [p])"
  proof (cases addArgs)
    case Nil
    then show ?thesis by (simp add: runScript_def main_add_def prog_simps)
  next
    case (Cons b rest)
    obtain r st' where body: "addBody sys b (initial w) = (r, st')"
      by (cases "addBody sys b (initial w)")
    from addBody_lines[OF body] have
      noexit: "\<forall>n. r \<noteq> Exit n" and
      ok: "r = Ok () \<longrightarrow> (\<exists>p. structuredLines (out st') = [p])"
      by (simp_all add: initial_def)
    show ?thesis
    proof (cases r)
      case (Ok u)
      with ok body Cons show ?thesis by (simp add: runScript_def main_add_def prog_simps)
    next
      case (Throw e)
      with body Cons show ?thesis by (simp add: runScript_def main_add_def prog_simps)
    next
      case (Exit n)
      with noexit show ?thesis by simp
    qed
  qed
next
  obtain r st' where body: "removeBody sys args answer (initial w) = (r, st')"
    by (cases "removeBody sys args answer (initial w)")
  have "structuredLines (out (initial w)) = []" by (simp add: initial_def)
  from removeBody_lines[OF body this] have
    ex: "\<forall>n. r = Exit n \<longrightarrow> n = 1 \<or> (n = 0 \<and> \<not> forceFlag args)" and
    ok: "r = Ok () \<longrightarrow> (\<exists>p. structuredLines (out st') = (if forceFlag args then [p] else []))" and
    quiet: "\<not> forceFlag args \<longrightarrow> structuredLines (out st') = []"
    by simp_all
  show "forceFlag args \<and> fst (runScript (main_remove sys args answer) w) = 0 \<longrightarrow>
      (\<exists>p. structuredLines (out (snd (runScript (main_remove sys args answer) w))) = [p])"
  proof (cases r)
    case (Ok u)
    with ok body show ?thesis by (auto simp add: runScript_def main_remove_def prog_simps)
  next
    case (Throw e)
    with body show ?thesis by (simp add: runScript_def main_remove_def prog_simps)
  next
    case (Exit n)
    with ex body show ?thesis by (auto simp add: runScript_def main_remove_def prog_simps)
  qed
  show "\<not> forceFlag args \<longrightarrow>
      structuredLines (out (snd (runScript (main_remove sys args answer) w))) = []"
  proof (cases r)
    case (Ok u)
    with quiet body show ?thesis by (simp add: runScript_def main_remove_def prog_simps)
  next
    case (Throw e)
    with quiet body show ?thesis
      by (simp add: runScript_def main_remove_def prog_simps emoji_defs)
  next
    case (Exit n)
    with quiet body show ?thesis by (simp add: runScript_def main_remove_def prog_simps)
  qed
qed

lemma demo_successful_runs:
  "fst (runScript (main_add demo_sys [''old'']) demo_repo) = 0
   \<and> structuredLines (out (snd (runScript (main_add demo_sys [''old'']) demo_repo)))
       = [''/r/app/old'']
   \<and> fst (runScript (main_remove demo_sys [''--force''] None) demo_repo) = 0
   \<and> structuredLines (out (snd (runScript (main_remove demo_sys [''--force''] None) demo_repo)))
       = [''/r/app'']"
  by code_simp

theorem structured_line_count_witness:
  "fst (runScript (main_add demo_sys [''old'']) demo_repo) = 0
   \<and> (\<exists>p. structuredLines (out (snd (runScript (main_add demo_sys [''old'']) demo_repo))) = [p])
   \<and> structuredLines (out (snd (runScript (main_add demo_sys [''old'']) demo_repo)))
       = [''/r/app/old'']
   \<and> fst (runScript (main_remove demo_sys [''--force''] None) demo_repo) = 0
   \<and> forceFlag [''--force'']
   \<and> (\<exists>p. structuredLines
              (out (snd (runScript (main_remove demo_sys [''--force''] None) demo_repo))) = [p])
   \<and> structuredLines (out (snd (runScript (main_remove demo_sys [''--force''] None) demo_repo)))
       = [''/r/app'']
   \<and> \<not> forceFlag []
   \<and> structuredLines (out (snd (runScript (main_remove demo_sys [] (Some ''y'')) demo_repo)))
       = []"
  using structured_line_count [of demo_sys "[''old'']" demo_repo "[''--force'']" None]
        structured_line_count [of demo_sys "[''old'']" demo_repo "[]" "Some ''y''"]
        demo_successful_runs
  by (simp add: forceFlag_def)

text \<open>
  Claim C4, as stated, fails on the small backend for a remove run without the force
  flag that is confirmed with \<open>y\<close>: the worktree is removed (after the checkout of the
  main branch fails in the worktree and the detached checkout takes its place), the exit
  code is 0, and no structured line is printed.
\<close>

theorem structured_line_count_counterexample:
  "fst (runScript (main_remove demo_sys [] (Some ''y'')) demo_repo) = 0
   \<and> acts (snd (runScript (main_remove demo_sys [] (Some ''y'')) demo_repo))
       = [Chdir ''/r/app'', Checkout ''dev'', CheckoutDetach ''dev'',
          WorktreeRemoveForce ''/r/app/fix'']
   \<and> d_worktrees (world (snd (runScript (main_remove demo_sys [] (Some ''y'')) demo_repo)))
       = [(''/r/app'', ''dev'')]
   \<and> structuredLines (out (snd (runScript (main_remove demo_sys [] (Some ''y'')) demo_repo))) = []"
  by code_simp

end
